theory Spec2Isabelle
  imports Main
begin

section \<open>Values exchanged with the service\<close>

text \<open>
  The client of \<^verbatim>\<open>clients/python/client.py\<close> exchanges JSON documents with the
  service. A decoded document is a Python value built from \<^verbatim>\<open>None\<close>, booleans,
  integers, strings, lists and dictionaries with string keys. A dictionary keeps
  its insertion order, so it is an association list; lookups take the first
  binding of a key. Numbers with a fractional part play no role in the client
  and are left out.
\<close>

datatype json =
    JNull
  | JBool bool
  | JInt int
  | JString string
  | JArray "json list"
  | JObject "(string \<times> json) list"

text \<open>
  Exceptions, by class. \<open>Exception\<close> is the built-in base class instantiated
  directly, which is what \<^verbatim>\<open>client.py\<close> raises itself with a message of its own.
  The other classes are raised by the interpreter (\<open>TypeError\<close>, \<open>KeyError\<close>,
  \<open>AttributeError\<close>) or by the HTTP library: \<open>ValueError\<close> stands for the JSON
  decoder's \<^verbatim>\<open>json.JSONDecodeError\<close>, a subclass of \<^verbatim>\<open>ValueError\<close>;
  \<open>RuntimeError\<close> is raised by a request on a closed session; \<open>ClientError\<close> and
  \<open>TimeoutError\<close> are failures of the connection, \<open>ClientError\<close> also standing
  for its subclass raised when a body is not announced as JSON. The interpreter's own
  messages are not modelled.
\<close>

datatype error =
    Exception string
  | ValueError string
  | TypeError
  | KeyError string
  | AttributeError
  | RuntimeError
  | ClientError string
  | TimeoutError string

datatype http_method = POST | GET | DELETE

record http_request =
  req_method :: http_method
  req_url :: string
  req_headers :: "(string \<times> string) list"
  req_json :: "json option"

text \<open>
  A response as the client reads it: \<^verbatim>\<open>resp.status\<close>, \<^verbatim>\<open>await resp.text()\<close> and
  \<^verbatim>\<open>await resp.json()\<close>, the last of which either yields the decoded body or
  raises.
\<close>

record http_response =
  resp_status :: int
  resp_text :: string
  resp_json :: "error + json"

text \<open>
  The service and the connection to it are outside the repository: they are a
  parameter, a function from the request sent to the response received or to the
  exception the connection raises.
\<close>

type_synonym transport = "http_request \<Rightarrow> error + http_response"

section \<open>The data classes\<close>

text \<open>
  \<^verbatim>\<open>SaveResult\<close> is a dataclass with four annotated fields. Python does not check
  the annotations, so each field holds whatever value the response carried.
\<close>

record SaveResult =
  success :: json
  context_id :: json
  version :: json
  timestamp :: json

record CloudContext =
  base_url :: string
  api_key :: string
  context_id :: string
  session :: "nat option"

text \<open>
  The state the client runs in: the client object itself, the sessions created
  so far (a session is named by its number), the sessions that have been closed,
  and the requests that went out, oldest first.
\<close>

record world =
  self :: CloudContext
  next_session :: nat
  closed_sessions :: "nat set"
  sent :: "http_request list"

section \<open>Built-ins of Python used by the client\<close>

text \<open>\<^verbatim>\<open>s.rstrip(c)\<close> for a one-character argument: drops every trailing \<open>c\<close>.\<close>

definition rstrip :: "char \<Rightarrow> string \<Rightarrow> string" where
  "rstrip c s = rev (dropWhile (\<lambda>x. x = c) (rev s))"

text \<open>
  \<^verbatim>\<open>a or b\<close> yields \<open>a\<close> when \<open>a\<close> is truthy and \<open>b\<close> otherwise. An optional string
  is falsy when it is \<^verbatim>\<open>None\<close> or empty; an optional dictionary is falsy when it is
  \<^verbatim>\<open>None\<close> or has no entry.
\<close>

definition or_str :: "string option \<Rightarrow> string \<Rightarrow> string" where
  "or_str a b = (case a of None \<Rightarrow> b | Some s \<Rightarrow> if s = [] then b else s)"

definition or_dict :: "(string \<times> json) list option \<Rightarrow> (string \<times> json) list \<Rightarrow> (string \<times> json) list" where
  "or_dict a b = (case a of None \<Rightarrow> b | Some d \<Rightarrow> if d = [] then b else d)"

text \<open>
  \<^verbatim>\<open>SaveResult(**data)\<close>: the generated constructor takes exactly the four fields as
  keyword arguments. A value that is not a dictionary cannot be unpacked, a key
  that is not a field is an unexpected keyword argument, and a field without a
  key is a missing argument; each is a \<open>TypeError\<close>.
\<close>

definition SaveResult_fields :: "string list" where
  "SaveResult_fields = [''success'', ''context_id'', ''version'', ''timestamp'']"

fun SaveResult_init :: "json \<Rightarrow> error + SaveResult" where
  "SaveResult_init (JObject kvs) =
     (if filter (\<lambda>k. k \<notin> set SaveResult_fields) (map fst kvs) \<noteq> [] then Inl TypeError
      else case map_of kvs ''success'' of None \<Rightarrow> Inl TypeError | Some s \<Rightarrow>
           (case map_of kvs ''context_id'' of None \<Rightarrow> Inl TypeError | Some c \<Rightarrow>
           (case map_of kvs ''version'' of None \<Rightarrow> Inl TypeError | Some v \<Rightarrow>
           (case map_of kvs ''timestamp'' of None \<Rightarrow> Inl TypeError | Some t \<Rightarrow>
              Inr \<lparr>success = s, SaveResult.context_id = c, version = v, timestamp = t\<rparr>))))"
| "SaveResult_init _ = Inl TypeError"

text \<open>
  \<^verbatim>\<open>data['contexts']\<close>: a dictionary yields the value bound to the key or raises
  \<open>KeyError\<close>; a list or a string cannot be indexed by a string and the other
  values cannot be indexed at all, which is a \<open>TypeError\<close>.
\<close>

fun getitem :: "json \<Rightarrow> string \<Rightarrow> error + json" where
  "getitem (JObject kvs) k = (case map_of kvs k of None \<Rightarrow> Inl (KeyError k) | Some v \<Rightarrow> Inr v)"
| "getitem _ k = Inl TypeError"

section \<open>The client\<close>

text \<open>
  \<^verbatim>\<open>CloudContext.__init__(base_url, api_key, context_id = "default")\<close>; an omitted
  \<open>context_id\<close> is \<open>None\<close> here.
\<close>

definition init :: "string \<Rightarrow> string \<Rightarrow> string option \<Rightarrow> CloudContext" where
  "init base_url' api_key' context_id' =
     \<lparr>base_url = rstrip CHR ''/'' base_url',
      api_key = api_key',
      CloudContext.context_id = (case context_id' of None \<Rightarrow> ''default'' | Some c \<Rightarrow> c),
      session = None\<rparr>"

text \<open>\<^verbatim>\<open>__aenter__\<close>: a new session is created and stored on the client.\<close>

definition aenter :: "world \<Rightarrow> world" where
  "aenter w = w\<lparr>self := (self w)\<lparr>session := Some (next_session w)\<rparr>,
                next_session := Suc (next_session w)\<rparr>"

text \<open>\<^verbatim>\<open>__aexit__\<close>: the session the client holds, if any, is closed.\<close>

definition aexit :: "world \<Rightarrow> world" where
  "aexit w = (case session (self w) of
                None \<Rightarrow> w
              | Some h \<Rightarrow> w\<lparr>closed_sessions := insert h (closed_sessions w)\<rparr>)"

text \<open>
  \<^verbatim>\<open>async with client: body\<close>. The body runs between \<^verbatim>\<open>__aenter__\<close> and
  \<^verbatim>\<open>__aexit__\<close>; \<^verbatim>\<open>__aexit__\<close> runs whether the body returned or raised, and since
  it returns \<^verbatim>\<open>None\<close> an exception of the body is raised again after it.
\<close>

definition async_with :: "(world \<Rightarrow> world \<times> (error + 'a)) \<Rightarrow> world \<Rightarrow> world \<times> (error + 'a)" where
  "async_with body w = (case body (aenter w) of (w', r) \<Rightarrow> (aexit w', r))"

text \<open>
  \<^verbatim>\<open>self.session.post(...)\<close>, \<^verbatim>\<open>.get(...)\<close> and \<^verbatim>\<open>.delete(...)\<close>: without a session
  the attribute lookup on \<^verbatim>\<open>None\<close> fails; a closed session refuses the request;
  otherwise the request goes out and the connection answers.
\<close>

definition session_request :: "transport \<Rightarrow> http_request \<Rightarrow> world \<Rightarrow> world \<times> (error + http_response)" where
  "session_request srv req w =
     (case session (self w) of
        None \<Rightarrow> (w, Inl AttributeError)
      | Some h \<Rightarrow>
          if h \<in> closed_sessions w then (w, Inl RuntimeError)
          else (w\<lparr>sent := sent w @ [req]\<rparr>, srv req))"

definition save :: "transport \<Rightarrow> json \<Rightarrow> (string \<times> json) list option \<Rightarrow> string option \<Rightarrow> world
                    \<Rightarrow> world \<times> (error + SaveResult)" where
  "save srv content metadata context_id' w =
     (let ctx_id = or_str context_id' (CloudContext.context_id (self w));
          headers = [(''Authorization'', ''Bearer '' @ api_key (self w)),
                     (''X-Context-ID'', ctx_id)];
          payload = JObject [(''content'', content),
                             (''metadata'', JObject (or_dict metadata []))]
      in case session_request srv
                \<lparr>req_method = POST, req_url = base_url (self w) @ ''/api/context'',
                 req_headers = headers, req_json = Some payload\<rparr> w of
           (w', Inl e) \<Rightarrow> (w', Inl e)
         | (w', Inr resp) \<Rightarrow>
             if resp_status resp \<noteq> 200
             then (w', Inl (Exception (''Failed to save context: '' @ resp_text resp)))
             else (case resp_json resp of
                     Inl e \<Rightarrow> (w', Inl e)
                   | Inr data \<Rightarrow> (w', SaveResult_init data)))"

definition get :: "transport \<Rightarrow> string option \<Rightarrow> world \<Rightarrow> world \<times> (error + json)" where
  "get srv context_id' w =
     (let ctx_id = or_str context_id' (CloudContext.context_id (self w));
          headers = [(''Authorization'', ''Bearer '' @ api_key (self w)),
                     (''X-Context-ID'', ctx_id)]
      in case session_request srv
                \<lparr>req_method = GET, req_url = base_url (self w) @ ''/api/context'',
                 req_headers = headers, req_json = None\<rparr> w of
           (w', Inl e) \<Rightarrow> (w', Inl e)
         | (w', Inr resp) \<Rightarrow>
             if resp_status resp \<noteq> 200
             then (w', Inl (Exception (''Failed to get context: '' @ resp_text resp)))
             else (w', resp_json resp))"

definition delete :: "transport \<Rightarrow> string option \<Rightarrow> world \<Rightarrow> world \<times> (error + bool)" where
  "delete srv context_id' w =
     (let ctx_id = or_str context_id' (CloudContext.context_id (self w));
          headers = [(''Authorization'', ''Bearer '' @ api_key (self w)),
                     (''X-Context-ID'', ctx_id)]
      in case session_request srv
                \<lparr>req_method = DELETE, req_url = base_url (self w) @ ''/api/context'',
                 req_headers = headers, req_json = None\<rparr> w of
           (w', Inl e) \<Rightarrow> (w', Inl e)
         | (w', Inr resp) \<Rightarrow>
             if resp_status resp \<noteq> 200
             then (w', Inl (Exception (''Failed to delete context: '' @ resp_text resp)))
             else (w', Inr True))"

definition list :: "transport \<Rightarrow> world \<Rightarrow> world \<times> (error + json)" where
  "list srv w =
     (let headers = [(''Authorization'', ''Bearer '' @ api_key (self w))]
      in case session_request srv
                \<lparr>req_method = GET, req_url = base_url (self w) @ ''/api/context/list'',
                 req_headers = headers, req_json = None\<rparr> w of
           (w', Inl e) \<Rightarrow> (w', Inl e)
         | (w', Inr resp) \<Rightarrow>
             if resp_status resp \<noteq> 200
             then (w', Inl (Exception (''Failed to list contexts: '' @ resp_text resp)))
             else (case resp_json resp of
                     Inl e \<Rightarrow> (w', Inl e)
                   | Inr data \<Rightarrow> (w', getitem data ''contexts'')))"

section \<open>Vocabulary of the properties\<close>

text \<open>
  A connection that answers every request with the same response, as the mocked
  sessions of \<^verbatim>\<open>tests/test_client.py\<close> do.
\<close>

definition always :: "http_response \<Rightarrow> transport" where
  "always resp req = Inr resp"

text \<open>The state right after a client has been constructed.\<close>

definition fresh :: "CloudContext \<Rightarrow> world" where
  "fresh c = \<lparr>self = c, next_session = 0, closed_sessions = {}, sent = []\<rparr>"

text \<open>
  The client holds a session that has not been closed: the state in which the
  operations are meant to be called.
\<close>

definition session_open :: "world \<Rightarrow> bool" where
  "session_open w = (case session (self w) of None \<Rightarrow> False | Some h \<Rightarrow> h \<notin> closed_sessions w)"

text \<open>The value of the context-identifier header of a request, if it has one.\<close>

definition context_header :: "http_request \<Rightarrow> string option" where
  "context_header req = map_of (req_headers req) ''X-Context-ID''"

text \<open>Concrete inputs: a client entered into its scope, and some responses.\<close>

definition example_client :: CloudContext where
  "example_client = init ''https://x.test/'' ''key'' None"

definition example_world :: world where
  "example_world = aenter (fresh example_client)"

definition ok_response :: "json \<Rightarrow> http_response" where
  "ok_response data = \<lparr>resp_status = 200, resp_text = [], resp_json = Inr data\<rparr>"

definition forbidden_response :: http_response where
  "forbidden_response =
     \<lparr>resp_status = 403, resp_text = ''Forbidden'', resp_json = Inl (ValueError ''Invalid JSON'')\<rparr>"

definition malformed_response :: http_response where
  "malformed_response =
     \<lparr>resp_status = 200, resp_text = ''<html>'', resp_json = Inl (ValueError ''Invalid JSON'')\<rparr>"

text \<open>
  The response that the fixture \<^verbatim>\<open>mock_response\<close> of \<^verbatim>\<open>tests/conftest.py\<close> builds
  when it is given no data: status 200, an empty text, and a \<^verbatim>\<open>json()\<close> that
  raises \<^verbatim>\<open>Exception("No JSON data")\<close>.
\<close>

definition no_json_response :: http_response where
  "no_json_response =
     \<lparr>resp_status = 200, resp_text = [], resp_json = Inl (Exception ''No JSON data'')\<rparr>"

section \<open>Auxiliary facts\<close>

lemma session_request_open:
  "session_open w \<Longrightarrow> session_request srv req w = (w\<lparr>sent := sent w @ [req]\<rparr>, srv req)"
  by (auto simp: session_open_def session_request_def split: option.splits)

lemma example_world_open: "session_open example_world"
  by (simp add: session_open_def example_world_def aenter_def fresh_def)

lemma example_world_self:
  "self example_world =
     \<lparr>base_url = ''https://x.test'', api_key = ''key'',
      CloudContext.context_id = ''default'', session = Some 0\<rparr>"
  by (simp add: example_world_def example_client_def aenter_def fresh_def init_def rstrip_def)

lemma example_world_sent: "sent example_world = []"
  by (simp add: example_world_def aenter_def fresh_def)

lemma save_self: "self (fst (save srv content metadata cid w)) = self w"
  by (simp add: save_def session_request_def Let_def split: option.splits sum.splits prod.splits)

lemma get_self: "self (fst (get srv cid w)) = self w"
  by (simp add: get_def session_request_def Let_def split: option.splits sum.splits prod.splits)

lemma delete_self: "self (fst (delete srv cid w)) = self w"
  by (simp add: delete_def session_request_def Let_def split: option.splits sum.splits prod.splits)

lemma list_self: "self (fst (list srv w)) = self w"
  by (simp add: list_def session_request_def Let_def split: option.splits sum.splits prod.splits)

section \<open>Construction\<close>

text \<open>
  Claim C6. A client constructed with base URL \<^verbatim>\<open>"https://x.test/"\<close> has the
  effective base URL \<^verbatim>\<open>"https://x.test"\<close>, whatever the other arguments are, and a
  client constructed without a context identifier has the default context
  identifier \<^verbatim>\<open>"default"\<close>.
\<close>

theorem init_strips_slash_and_defaults:
  "base_url (init ''https://x.test/'' key cid) = ''https://x.test''
   \<and> CloudContext.context_id (init url key None) = ''default''"
  by (simp add: init_def rstrip_def)

section \<open>Failures reported by the service\<close>

text \<open>
  Claim C1. With an open session, when the response has a status of 400 or more,
  each of the four operations raises the exception the client builds itself, and
  its message is the fixed prefix of the operation followed by the text of the
  response body.
\<close>

theorem http_error_raises:
  assumes "session_open w" and "400 \<le> resp_status resp"
  shows "snd (save (always resp) content metadata cid w)
           = Inl (Exception (''Failed to save context: '' @ resp_text resp))
       \<and> snd (get (always resp) cid w)
           = Inl (Exception (''Failed to get context: '' @ resp_text resp))
       \<and> snd (delete (always resp) cid w)
           = Inl (Exception (''Failed to delete context: '' @ resp_text resp))
       \<and> snd (list (always resp) w)
           = Inl (Exception (''Failed to list contexts: '' @ resp_text resp))"
  using assms
  by (simp add: save_def get_def delete_def list_def session_request_open always_def)

theorem http_error_raises_witness:
  "session_open example_world
   \<and> 400 \<le> resp_status forbidden_response
   \<and> snd (save (always forbidden_response) JNull None None example_world)
       = Inl (Exception ''Failed to save context: Forbidden'')
   \<and> snd (get (always forbidden_response) None example_world)
       = Inl (Exception ''Failed to get context: Forbidden'')
   \<and> snd (delete (always forbidden_response) None example_world)
       = Inl (Exception ''Failed to delete context: Forbidden'')
   \<and> snd (list (always forbidden_response) example_world)
       = Inl (Exception ''Failed to list contexts: Forbidden'')"
  using http_error_raises [of example_world forbidden_response JNull None None]
  by (simp add: example_world_open forbidden_response_def)

section \<open>Requests sent\<close>

text \<open>
  Claim C2, as amended. With an open session, each of \<open>save\<close>, \<open>get\<close> and \<open>delete\<close>
  sends one request whose context-identifier header is the \<open>context_id\<close> argument
  when that argument is given and is not the empty string, and the client's
  default when the argument is omitted or is the empty string; \<open>list\<close> sends
  one request without a context-identifier header.
\<close>

theorem context_header_sent:
  assumes "session_open w"
  shows "(\<exists>req. sent (fst (save srv content metadata cid w)) = sent w @ [req]
            \<and> context_header req = Some (case cid of None \<Rightarrow> CloudContext.context_id (self w)
                 | Some c \<Rightarrow> if c = [] then CloudContext.context_id (self w) else c))
       \<and> (\<exists>req. sent (fst (get srv cid w)) = sent w @ [req]
            \<and> context_header req = Some (case cid of None \<Rightarrow> CloudContext.context_id (self w)
                 | Some c \<Rightarrow> if c = [] then CloudContext.context_id (self w) else c))
       \<and> (\<exists>req. sent (fst (delete srv cid w)) = sent w @ [req]
            \<and> context_header req = Some (case cid of None \<Rightarrow> CloudContext.context_id (self w)
                 | Some c \<Rightarrow> if c = [] then CloudContext.context_id (self w) else c))
       \<and> (\<exists>req. sent (fst (list srv w)) = sent w @ [req] \<and> context_header req = None)"
proof -
  have s: "\<exists>req. sent (fst (save srv content metadata cid w)) = sent w @ [req]
            \<and> context_header req = Some (case cid of None \<Rightarrow> CloudContext.context_id (self w)
                 | Some c \<Rightarrow> if c = [] then CloudContext.context_id (self w) else c)"
    using assms
    by (simp add: save_def session_request_open or_str_def context_header_def Let_def
        split: sum.splits option.splits)
  have g: "\<exists>req. sent (fst (get srv cid w)) = sent w @ [req]
            \<and> context_header req = Some (case cid of None \<Rightarrow> CloudContext.context_id (self w)
                 | Some c \<Rightarrow> if c = [] then CloudContext.context_id (self w) else c)"
    using assms
    by (simp add: get_def session_request_open or_str_def context_header_def Let_def
        split: sum.splits option.splits)
  have d: "\<exists>req. sent (fst (delete srv cid w)) = sent w @ [req]
            \<and> context_header req = Some (case cid of None \<Rightarrow> CloudContext.context_id (self w)
                 | Some c \<Rightarrow> if c = [] then CloudContext.context_id (self w) else c)"
    using assms
    by (simp add: delete_def session_request_open or_str_def context_header_def Let_def
        split: sum.splits option.splits)
  have l: "\<exists>req. sent (fst (list srv w)) = sent w @ [req] \<and> context_header req = None"
    using assms
    by (simp add: list_def session_request_open context_header_def Let_def
        split: sum.splits option.splits)
  from s g d l show ?thesis by blast
qed

theorem context_header_sent_witness:
  "session_open example_world
   \<and> (\<exists>req. sent (fst (save (always forbidden_response) JNull None (Some ''custom-context'') example_world))
              = sent example_world @ [req]
            \<and> context_header req = Some ''custom-context'')
   \<and> (\<exists>req. sent (fst (get (always forbidden_response) None example_world))
              = sent example_world @ [req]
            \<and> context_header req = Some ''default'')
   \<and> (\<exists>req. sent (fst (list (always forbidden_response) example_world))
              = sent example_world @ [req]
            \<and> context_header req = None)"
  using context_header_sent [of example_world "always forbidden_response" JNull None "Some ''custom-context''"]
    context_header_sent [of example_world "always forbidden_response" JNull None None]
  by (simp add: example_world_open example_world_self)

text \<open>
  The claim as written fails for an argument that is given and empty:
  \<^verbatim>\<open>context_id or self.context_id\<close> takes the empty string for a missing argument,
  so \<^verbatim>\<open>get("")\<close> on a client whose default is \<^verbatim>\<open>"default"\<close> sends the default.
\<close>

theorem context_header_explicit_empty_counterexample:
  "map context_header (sent (fst (get (always (ok_response JNull)) (Some []) example_world)))
     = [Some ''default'']
   \<and> map context_header (sent (fst (get (always (ok_response JNull)) (Some []) example_world)))
     \<noteq> [Some []]"
  by (simp add: get_def session_request_open example_world_open example_world_self
      example_world_sent or_str_def context_header_def always_def ok_response_def Let_def)

text \<open>
  Claim C5. With an open session, \<open>save\<close> sends one request, a POST to the base
  URL followed by \<^verbatim>\<open>/api/context\<close>, whose JSON body is the dictionary of the
  content and the metadata; an omitted metadata argument is sent as the empty
  dictionary.
\<close>

theorem save_sends_one_post:
  assumes "session_open w"
  shows "\<exists>req. sent (fst (save srv content metadata cid w)) = sent w @ [req]
           \<and> req_method req = POST
           \<and> req_url req = base_url (self w) @ ''/api/context''
           \<and> req_json req = Some (JObject [(''content'', content),
                (''metadata'', JObject (case metadata of None \<Rightarrow> [] | Some m \<Rightarrow> m))])"
  using assms
  by (simp add: save_def session_request_open or_dict_def Let_def split: sum.splits option.splits)

theorem save_sends_one_post_witness:
  "session_open example_world
   \<and> (\<exists>req. sent (fst (save (always forbidden_response) (JObject [(''k'', JInt 1)]) None None example_world))
              = sent example_world @ [req]
           \<and> req_method req = POST
           \<and> req_url req = ''https://x.test/api/context''
           \<and> req_json req = Some (JObject [(''content'', JObject [(''k'', JInt 1)]),
                (''metadata'', JObject [])]))"
  using save_sends_one_post [of example_world "always forbidden_response" "JObject [(''k'', JInt 1)]" None None]
  by (simp add: example_world_open example_world_self)

section \<open>Results of successful calls\<close>

text \<open>
  Claim C3, as amended. With an open session and a response of status 200 whose
  body decodes to a dictionary that binds the four fields, \<open>save\<close> returns a
  \<open>SaveResult\<close> holding the four values as they are, of whatever type, provided
  the dictionary has no other key; if it has another key, \<open>save\<close> raises a
  \<open>TypeError\<close>.
\<close>

theorem save_result_verbatim:
  assumes "session_open w"
    and "resp_status resp = 200"
    and "resp_json resp = Inr (JObject kvs)"
    and "map_of kvs ''success'' = Some s"
    and "map_of kvs ''context_id'' = Some c"
    and "map_of kvs ''version'' = Some v"
    and "map_of kvs ''timestamp'' = Some t"
  shows "(set (map fst kvs) \<subseteq> set SaveResult_fields \<longrightarrow>
            snd (save (always resp) content metadata cid w)
              = Inr \<lparr>success = s, SaveResult.context_id = c, version = v, timestamp = t\<rparr>)
       \<and> (\<not> set (map fst kvs) \<subseteq> set SaveResult_fields \<longrightarrow>
            snd (save (always resp) content metadata cid w) = Inl TypeError)"
proof -
  have r: "snd (save (always resp) content metadata cid w) = SaveResult_init (JObject kvs)"
    using assms(1-3) by (simp add: save_def session_request_open always_def Let_def)
  have f: "(filter (\<lambda>k. k \<notin> set SaveResult_fields) (map fst kvs) = [])
             = (set (map fst kvs) \<subseteq> set SaveResult_fields)"
    by (auto simp: filter_empty_conv)
  show ?thesis
    using assms(4-7) by (simp add: r f del: set_map)
qed

theorem save_result_verbatim_witness:
  "session_open example_world
   \<and> snd (save (always (ok_response (JObject
          [(''success'', JBool True), (''context_id'', JString ''c''), (''version'', JInt 1),
           (''timestamp'', JString ''T'')])))
        (JObject [(''k'', JInt 1)]) None None example_world)
     = Inr \<lparr>success = JBool True, SaveResult.context_id = JString ''c'', version = JInt 1,
            timestamp = JString ''T''\<rparr>"
  using save_result_verbatim [of example_world
      "ok_response (JObject [(''success'', JBool True), (''context_id'', JString ''c''),
         (''version'', JInt 1), (''timestamp'', JString ''T'')])"
      "[(''success'', JBool True), (''context_id'', JString ''c''),
         (''version'', JInt 1), (''timestamp'', JString ''T'')]"
      "JBool True" "JString ''c''" "JInt 1" "JString ''T''" "JObject [(''k'', JInt 1)]" None None]
  by (simp add: example_world_open ok_response_def SaveResult_fields_def)

text \<open>
  The claim as written fails on a body with a fifth field: \<^verbatim>\<open>SaveResult(**data)\<close>
  rejects the keyword it does not know.
\<close>

theorem save_extra_field_counterexample:
  "snd (save (always (ok_response (JObject
          [(''success'', JBool True), (''context_id'', JString ''c''), (''version'', JInt 1),
           (''timestamp'', JString ''T''), (''extra'', JNull)])))
        (JObject [(''k'', JInt 1)]) None None example_world)
   = Inl TypeError"
  by (simp add: save_def session_request_open example_world_open always_def ok_response_def
      SaveResult_fields_def Let_def)

text \<open>
  Claim C4, as amended. With an open session and a response of status 200, when
  decoding the body raises an exception, \<open>save\<close> raises that same exception,
  whatever its class, without a message of its own; and when the body decodes
  to a dictionary that lacks one of the four fields, \<open>save\<close> raises a
  \<open>TypeError\<close>.
\<close>

theorem save_decode_failure_propagates:
  assumes "session_open w"
    and "resp_status resp = 200"
  shows "(resp_json resp = Inl e \<longrightarrow>
            snd (save (always resp) content metadata cid w) = Inl e)
       \<and> (resp_json resp = Inr (JObject kvs) \<and> k \<in> set SaveResult_fields \<and> map_of kvs k = None \<longrightarrow>
            snd (save (always resp) content metadata cid w) = Inl TypeError)"
proof -
  have r: "snd (save (always resp) content metadata cid w)
             = (case resp_json resp of Inl e \<Rightarrow> Inl e | Inr data \<Rightarrow> SaveResult_init data)"
    using assms by (simp add: save_def session_request_open always_def Let_def split: sum.splits)
  have m: "SaveResult_init (JObject kvs) = Inl TypeError"
    if "k \<in> set SaveResult_fields" and "map_of kvs k = None"
    using that by (auto simp: SaveResult_fields_def split: option.splits)
  have a: "snd (save (always resp) content metadata cid w) = Inl e"
    if "resp_json resp = Inl e"
    using that by (simp add: r)
  have b: "snd (save (always resp) content metadata cid w) = Inl TypeError"
    if "resp_json resp = Inr (JObject kvs)" and "k \<in> set SaveResult_fields"
      and "map_of kvs k = None"
    using that(1) m [OF that(2,3)] by (simp only: r sum.case)
  show ?thesis
    using a b by blast
qed

theorem save_decode_failure_propagates_witness:
  "session_open example_world
   \<and> resp_status malformed_response = 200
   \<and> resp_json malformed_response = Inl (ValueError ''Invalid JSON'')
   \<and> snd (save (always malformed_response) JNull None None example_world)
       = Inl (ValueError ''Invalid JSON'')
   \<and> resp_status (ok_response (JObject [(''success'', JBool True)])) = 200
   \<and> resp_json (ok_response (JObject [(''success'', JBool True)]))
       = Inr (JObject [(''success'', JBool True)])
   \<and> ''version'' \<in> set SaveResult_fields
   \<and> map_of [(''success'', JBool True)] ''version'' = None
   \<and> snd (save (always (ok_response (JObject [(''success'', JBool True)]))) JNull None None
          example_world)
       = Inl TypeError"
proof -
  have o: "resp_status malformed_response = 200"
    by (simp add: malformed_response_def)
  have j: "resp_json malformed_response = Inl (ValueError ''Invalid JSON'')"
    by (simp add: malformed_response_def)
  have o': "resp_status (ok_response (JObject [(''success'', JBool True)])) = 200"
    by (simp add: ok_response_def)
  have j': "resp_json (ok_response (JObject [(''success'', JBool True)]))
              = Inr (JObject [(''success'', JBool True)])"
    by (simp add: ok_response_def)
  have f: "''version'' \<in> set SaveResult_fields"
    by (simp add: SaveResult_fields_def)
  have n: "map_of [(''success'', JBool True)] ''version'' = None"
    by simp
  show ?thesis
    using save_decode_failure_propagates [OF example_world_open o,
        of "ValueError ''Invalid JSON''" JNull None None "[]" "''version''"]
      save_decode_failure_propagates [OF example_world_open o',
        of "ValueError ''Invalid JSON''" JNull None None "[(''success'', JBool True)]" "''version''"]
      example_world_open o j o' j' f n
    by simp
qed

text \<open>
  The claim as written fails where decoding raises the class that the client
  raises for a status other than 200: \<open>save\<close> hands the exception on as it is
  and defines no class of its own for it. With the response of the test fixture
  the outcome is an \<open>Exception\<close>, as it is for the response of status 403.
\<close>

theorem save_decode_failure_counterexample:
  "snd (save (always no_json_response) JNull None None example_world)
     = Inl (Exception ''No JSON data'')
   \<and> snd (save (always forbidden_response) JNull None None example_world)
     = Inl (Exception ''Failed to save context: Forbidden'')"
  by (simp add: save_def session_request_open example_world_open always_def
      no_json_response_def forbidden_response_def Let_def)

text \<open>
  Claim C7. With an open session and a response of status 200 whose body decodes
  to a dictionary, \<open>list\<close> returns the value bound to \<^verbatim>\<open>contexts\<close> as it is, so a
  list comes back with its elements in the order of the body: the empty list for
  \<^verbatim>\<open>{"contexts": []}\<close>, and \<^verbatim>\<open>["a", "b"]\<close> for \<^verbatim>\<open>{"contexts": ["a", "b"]}\<close>.
\<close>

theorem list_returns_contexts:
  assumes "session_open w" and "resp_status resp = 200"
  shows "(resp_json resp = Inr (JObject kvs) \<and> map_of kvs ''contexts'' = Some v
            \<longrightarrow> snd (list (always resp) w) = Inr v)
       \<and> (resp_json resp = Inr (JObject [(''contexts'', JArray [])])
            \<longrightarrow> snd (list (always resp) w) = Inr (JArray []))
       \<and> (resp_json resp = Inr (JObject [(''contexts'', JArray [JString ''a'', JString ''b''])])
            \<longrightarrow> snd (list (always resp) w) = Inr (JArray [JString ''a'', JString ''b'']))"
  using assms
  by (simp add: list_def session_request_open always_def Let_def)

theorem list_returns_contexts_witness:
  "session_open example_world
   \<and> resp_status (ok_response (JObject [(''contexts'', JArray [JString ''a'', JString ''b''])])) = 200
   \<and> snd (list (always (ok_response (JObject [(''contexts'', JArray [JString ''a'', JString ''b''])])))
        example_world)
     = Inr (JArray [JString ''a'', JString ''b''])"
  using list_returns_contexts [of example_world
      "ok_response (JObject [(''contexts'', JArray [JString ''a'', JString ''b''])])"
      "[(''contexts'', JArray [JString ''a'', JString ''b''])]" "JArray [JString ''a'', JString ''b'']"]
  by (simp add: example_world_open ok_response_def)

text \<open>
  Claim C8. With an open session and a response of status 200, \<open>delete\<close> returns
  \<open>True\<close>, whatever the text of the body is and whether or not it decodes.
\<close>

theorem delete_returns_true:
  assumes "session_open w" and "resp_status resp = 200"
  shows "snd (delete (always resp) cid w) = Inr True"
  using assms
  by (simp add: delete_def session_request_open always_def Let_def)

theorem delete_returns_true_witness:
  "session_open example_world
   \<and> resp_status malformed_response = 200
   \<and> snd (delete (always malformed_response) None example_world) = Inr True"
  using delete_returns_true [of example_world malformed_response None]
  by (simp add: example_world_open malformed_response_def)

section \<open>The scope of the session\<close>

text \<open>
  Claim C9. Entering the scope creates a new session and stores it on the
  client. For every body that leaves the client's session reference in place,
  the scope ends with that session closed and hands on the outcome of the body,
  be it a value or an exception.
\<close>

theorem session_closed_on_exit:
  assumes "session (self (fst (body (aenter w)))) = session (self (aenter w))"
  shows "session (self (aenter w)) = Some (next_session w)
       \<and> next_session (aenter w) = Suc (next_session w)
       \<and> fst (async_with body w) = aexit (fst (body (aenter w)))
       \<and> snd (async_with body w) = snd (body (aenter w))
       \<and> next_session w \<in> closed_sessions (fst (async_with body w))"
proof -
  obtain w' r where b: "body (aenter w) = (w', r)"
    by (cases "body (aenter w)")
  have e: "session (self (aenter w)) = Some (next_session w)"
    by (simp add: aenter_def)
  have s: "session (self w') = Some (next_session w)"
    using assms b e by simp
  have a: "async_with body w = (aexit w', r)"
    by (simp add: async_with_def b)
  have c: "next_session w \<in> closed_sessions (aexit w')"
    by (simp add: aexit_def s)
  have n: "next_session (aenter w) = Suc (next_session w)"
    by (simp add: aenter_def)
  show ?thesis
    using e n c by (simp add: a b)
qed

theorem session_closed_on_exit_witness:
  "session (self (fst (get (always forbidden_response) None (aenter (fresh example_client)))))
     = session (self (aenter (fresh example_client)))
   \<and> snd (async_with (get (always forbidden_response) None) (fresh example_client))
     = Inl (Exception ''Failed to get context: Forbidden'')
   \<and> 0 \<in> closed_sessions (fst (async_with (get (always forbidden_response) None) (fresh example_client)))
   \<and> session (self (fst (delete (always malformed_response) None (aenter (fresh example_client)))))
     = session (self (aenter (fresh example_client)))
   \<and> snd (async_with (delete (always malformed_response) None) (fresh example_client)) = Inr True
   \<and> 0 \<in> closed_sessions (fst (async_with (delete (always malformed_response) None) (fresh example_client)))"
proof -
  let ?w = "fresh example_client"
  have o: "session_open (aenter ?w)"
    using example_world_open by (simp add: example_world_def)
  have g: "snd (get (always forbidden_response) None (aenter ?w))
             = Inl (Exception ''Failed to get context: Forbidden'')"
    by (simp add: get_def session_request_open [OF o] always_def forbidden_response_def Let_def)
  have d: "snd (delete (always malformed_response) None (aenter ?w)) = Inr True"
    by (simp add: delete_def session_request_open [OF o] always_def malformed_response_def Let_def)
  have n: "next_session ?w = 0" by (simp add: fresh_def)
  have sg: "session (self (fst (get (always forbidden_response) None (aenter ?w))))
              = session (self (aenter ?w))"
    by (simp add: get_self)
  have sd: "session (self (fst (delete (always malformed_response) None (aenter ?w))))
              = session (self (aenter ?w))"
    by (simp add: delete_self)
  have tg: "snd (async_with (get (always forbidden_response) None) ?w)
              = Inl (Exception ''Failed to get context: Forbidden'')
            \<and> 0 \<in> closed_sessions (fst (async_with (get (always forbidden_response) None) ?w))"
    using session_closed_on_exit [of "get (always forbidden_response) None" ?w, OF sg, unfolded n g]
    by blast
  have td: "snd (async_with (delete (always malformed_response) None) ?w) = Inr True
            \<and> 0 \<in> closed_sessions (fst (async_with (delete (always malformed_response) None) ?w))"
    using session_closed_on_exit [of "delete (always malformed_response) None" ?w, OF sd, unfolded n d]
    by blast
  show ?thesis
    using sg sd tg td by blast
qed

section \<open>The client object is not changed\<close>

text \<open>
  Claim C10. Each of the four operations, whatever its arguments, the state of
  the session and the answer of the connection, leaves the client object as it
  was: base URL, API key, default context identifier and session reference.
\<close>

theorem operations_leave_client:
  "self (fst (save srv content metadata cid w)) = self w
   \<and> self (fst (get srv cid w)) = self w
   \<and> self (fst (delete srv cid w)) = self w
   \<and> self (fst (list srv w)) = self w"
  by (simp add: save_self get_self delete_self list_self)

end
